theory Spec2Isabelle
  imports Complex_Main
begin

section \<open>Data model (backend/engine/AgentManager.ts)\<close>

text \<open>
  The simulation keeps its agents in \<^verbatim>\<open>AgentManager.agents : Map<string, Agent>\<close>.
  A JavaScript \<^verbatim>\<open>number\<close> is modelled as a \<^typ>\<open>real\<close>: the embedding keeps the
  comparisons, the \<^verbatim>\<open>Math.min\<close>/\<^verbatim>\<open>Math.max\<close> clamps and the deltas of the source and
  leaves binary rounding and NaN aside.

  The fields \<^verbatim>\<open>personality\<close>, \<^verbatim>\<open>starting_conditions\<close>, \<^verbatim>\<open>relationships_summary\<close> and the
  optional family fields are of type \<^verbatim>\<open>any\<close> or are never read by the functions below;
  they are left out of the record.
\<close>

record PhysicalState =
  health :: real
  hunger :: real
  energy :: real
  age :: real

record MentalState =
  mood :: string
  mood_score :: real
  current_thought :: string
  worries :: "string list"
  desires :: "string list"
  secrets :: "string list"

record Agent =
  agent_id :: string
  agent_name :: string
  physical_state :: PhysicalState
  mental_state :: MentalState
  current_location :: string
  current_activity :: string
  is_alive :: bool
  born_on_day :: real
  died_on_day :: "real option"
  death_cause :: "string option"
  profession :: "string option"

text \<open>
  The Map is a list of its values in insertion order. Every insertion in the source is
  \<^verbatim>\<open>this.agents.set(x.id, x)\<close>, so the key of an entry is the \<^verbatim>\<open>id\<close> of the agent it
  holds, and a well-formed Map has no two entries with the same id.

  Agent objects are shared by reference between the Map and the code that iterates over
  its values: an assignment to a field of such an object is a write to the Map entry of
  that id, which is what \<open>agents_set\<close> does.
\<close>

type_synonym AgentMap = "Agent list"

fun agents_set :: "Agent \<Rightarrow> AgentMap \<Rightarrow> AgentMap" where
  "agents_set a [] = [a]"
| "agents_set a (b # bs) =
     (if agent_id b = agent_id a then a # bs else b # agents_set a bs)"

definition agents_get :: "string \<Rightarrow> AgentMap \<Rightarrow> Agent option" where
  "agents_get i reg = find (\<lambda>a. agent_id a = i) reg"

definition agents_delete :: "string \<Rightarrow> AgentMap \<Rightarrow> AgentMap" where
  "agents_delete i reg = filter (\<lambda>a. agent_id a \<noteq> i) reg"

definition wf_agents :: "AgentMap \<Rightarrow> bool" where
  "wf_agents reg = distinct (map agent_id reg)"

definition getLivingAgents :: "AgentMap \<Rightarrow> Agent list" where
  "getLivingAgents reg = filter is_alive reg"

definition getAgent :: "string \<Rightarrow> AgentMap \<Rightarrow> Agent option" where
  "getAgent i reg = agents_get i reg"

definition getAgents :: "AgentMap \<Rightarrow> Agent list" where
  "getAgents reg = reg"

text \<open>
  \<^verbatim>\<open>updateAgent(id, updates)\<close>: \<^verbatim>\<open>Object.assign(agent, updates)\<close> on the stored object,
  a no-op on an unknown id. The partial object \<^verbatim>\<open>updates\<close> is the function that
  overwrites the fields it carries.
\<close>

definition updateAgent :: "string \<Rightarrow> (Agent \<Rightarrow> Agent) \<Rightarrow> AgentMap \<Rightarrow> AgentMap" where
  "updateAgent i updates reg =
     (case agents_get i reg of
        Some agent \<Rightarrow> agents_set (updates agent) reg
      | None \<Rightarrow> reg)"

definition removeAgent :: "string \<Rightarrow> AgentMap \<Rightarrow> AgentMap" where
  "removeAgent i reg = agents_delete i reg"

section \<open>The decay pass: AgentManager.updatePhysicalNeeds\<close>

text \<open>
  \<open>decayAgent\<close> is the body of the loop for one living agent; the statements of the
  source run in order, each reading the values the earlier ones wrote.
\<close>

definition decayAgent :: "bool \<Rightarrow> Agent \<Rightarrow> Agent" where
  "decayAgent isNighttime agent =
     (let p = physical_state agent;
          hunger1 = min 100 (hunger p + 0.5);
          energy1 =
            (if isNighttime \<and> current_activity agent \<noteq> ''sleeping''
               then max 0 (energy p - 1.5)
             else if current_activity agent = ''sleeping''
               then min 100 (energy p + 45)
             else max 0 (energy p - 0.8));
          health1 =
            (if hunger1 < 30 \<and> energy1 > 60 then min 100 (health p + 0.5) else health p);
          health2 = (if hunger1 > 90 then max 0 (health1 - 1.5) else health1);
          health3 = (if energy1 < 10 then max 0 (health2 - 0.3) else health2);
          mood_score1 =
            (if hunger1 < 40 \<and> energy1 > 50 \<and> health3 > 60
               then min 100 (mood_score (mental_state agent) + 1)
             else mood_score (mental_state agent))
      in agent
           \<lparr> physical_state :=
               \<lparr> health = health3, hunger = hunger1, energy = energy1, age = age p + 1 \<rparr>,
             mental_state := (mental_state agent) \<lparr> mood_score := mood_score1 \<rparr> \<rparr>)"

definition updatePhysicalNeeds :: "bool \<Rightarrow> AgentMap \<Rightarrow> AgentMap" where
  "updatePhysicalNeeds isNighttime reg =
     fold (\<lambda>agent r. agents_set (decayAgent isNighttime agent) r) (getLivingAgents reg) reg"

section \<open>The eligibility query: AgentManager.getAgentsNeedingDecisions\<close>

text \<open>
  \<^verbatim>\<open>Array.prototype.filter\<close> with a callback that writes to the Map: the callback returns
  whether the element is kept together with the Map it leaves behind.
\<close>

fun filter_st :: "('a \<Rightarrow> 's \<Rightarrow> bool \<times> 's) \<Rightarrow> 'a list \<Rightarrow> 's \<Rightarrow> 'a list \<times> 's" where
  "filter_st f [] s = ([], s)"
| "filter_st f (x # xs) s =
     (let (keep, s1) = f x s;
          (rest, s2) = filter_st f xs s1
      in (if keep then x # rest else rest, s2))"

definition needsDecision :: "Agent \<Rightarrow> AgentMap \<Rightarrow> bool \<times> AgentMap" where
  "needsDecision agent r =
     (if current_activity agent = ''sleeping'' then (False, r)
      else if current_activity agent = ''eating'' then (False, r)
      else if current_activity agent = ''in_conversation'' then (False, r)
      else if energy (physical_state agent) < 10
        then (False, agents_set (agent \<lparr> current_activity := ''sleeping'' \<rparr>) r)
      else (True, r))"

definition getAgentsNeedingDecisions :: "AgentMap \<Rightarrow> Agent list \<times> AgentMap" where
  "getAgentsNeedingDecisions reg = filter_st needsDecision (getLivingAgents reg) reg"

definition markInConversation :: "string \<Rightarrow> AgentMap \<Rightarrow> AgentMap" where
  "markInConversation agentId reg =
     (case agents_get agentId reg of
        Some agent \<Rightarrow> agents_set (agent \<lparr> current_activity := ''in_conversation'' \<rparr>) reg
      | None \<Rightarrow> reg)"

definition endConversation :: "string \<Rightarrow> AgentMap \<Rightarrow> AgentMap" where
  "endConversation agentId reg =
     (case agents_get agentId reg of
        Some agent \<Rightarrow> agents_set (agent \<lparr> current_activity := ''idle'' \<rparr>) reg
      | None \<Rightarrow> reg)"

section \<open>Births: AgentManager.createAgent, PersonalityBuilder, SimulationEngine.spawnNewAgent\<close>

record NewAgentPersonality =
  p_name :: string
  p_age :: real
  personality_traits :: "string list"
  core_desire :: string
  deepest_fear :: string
  secret :: string
  initial_location :: string

text \<open>
  \<^verbatim>\<open>createAgent(personality)\<close>. The id is drawn by \<^verbatim>\<open>crypto.randomUUID()\<close>;
  \<open>world_day\<close> is the value of \<^verbatim>\<open>worldState?.current_day\<close> read from the database
  (\<open>None\<close> when the read gives no row), from which the source takes
  \<^verbatim>\<open>worldState?.current_day || 1\<close>; \<open>insertOk\<close> is the outcome of the database insert
  (\<open>False\<close> for an error answer or an exception, on which the source returns \<^verbatim>\<open>null\<close>
  before the Map is touched). The record keeps the fields of \<^verbatim>\<open>NewAgentPersonality\<close>
  that \<^verbatim>\<open>createAgent\<close> copies into the fields of \<open>Agent\<close> modelled here.
\<close>

definition createAgent ::
  "string \<Rightarrow> real option \<Rightarrow> bool \<Rightarrow> NewAgentPersonality \<Rightarrow> AgentMap
     \<Rightarrow> Agent option \<times> AgentMap" where
  "createAgent newId world_day insertOk personality reg =
     (let newAgent =
            \<lparr> agent_id = newId,
              agent_name = p_name personality,
              physical_state = \<lparr> health = 100, hunger = 20, energy = 100, age = p_age personality \<rparr>,
              mental_state =
                \<lparr> mood = ''curious'', mood_score = 60, current_thought = ''A new beginning...'',
                  worries = [deepest_fear personality],
                  desires = [core_desire personality],
                  secrets = [secret personality] \<rparr>,
              current_location = initial_location personality,
              current_activity = ''arriving in town'',
              is_alive = True,
              born_on_day = (case world_day of
                               None \<Rightarrow> 1
                             | Some d \<Rightarrow> if d = 0 then 1 else d),
              died_on_day = None,
              death_cause = None,
              profession = None \<rparr>
      in if \<not> insertOk then (None, reg)
         else (Some newAgent, agents_set newAgent reg))"

text \<open>
  The generator \<^verbatim>\<open>generateAgentPersonality\<close> (\<^verbatim>\<open>utils/gemini\<close>). Its whole body is one
  \<^verbatim>\<open>try\<close> block: when the oracle call and \<^verbatim>\<open>JSON.parse\<close> go through it returns
  \<^verbatim>\<open>{success: true, data: ...}\<close> (\<open>Answered\<close>, with the parsed value kept as text), and
  when anything in the block throws it returns \<^verbatim>\<open>{success: false, error: ...}\<close>
  (\<open>Failed\<close>). It returns an object on every path and never throws.
\<close>

datatype OracleOutcome = Answered string | Failed string

record GeneratorReply =
  reply_success :: bool
  reply_data :: "string option"
  reply_error :: "string option"

definition generateAgentPersonality :: "OracleOutcome \<Rightarrow> GeneratorReply" where
  "generateAgentPersonality outcome =
     (case outcome of
        Answered parsed \<Rightarrow>
          \<lparr> reply_success = True, reply_data = Some parsed, reply_error = None \<rparr>
      | Failed message \<Rightarrow>
          \<lparr> reply_success = False, reply_data = None, reply_error = Some message \<rparr>)"

text \<open>
  \<^verbatim>\<open>PersonalityBuilder.generatePersonality\<close>. \<open>generated\<close> is the value the generator
  returned as the test \<^verbatim>\<open>if (!generated)\<close> sees it: \<open>None\<close> for a falsy value, \<open>Some g\<close>
  for any other (an object is never falsy). \<open>build g\<close> stands for lines 51 to 79 of the
  source, which fill the gaps of \<open>g\<close> with defaults and random picks: they end with a
  personality, or with an exception (\<open>None\<close>), on which the \<^verbatim>\<open>catch\<close> block returns
  \<^verbatim>\<open>generateFallbackPersonality()\<close>, here \<open>fallback\<close>.
\<close>

definition generatePersonality ::
  "'g option \<Rightarrow> ('g \<Rightarrow> NewAgentPersonality option) \<Rightarrow> NewAgentPersonality
     \<Rightarrow> NewAgentPersonality option" where
  "generatePersonality generated build fallback =
     (case generated of
        None \<Rightarrow> None
      | Some g \<Rightarrow>
          (case build g of
             Some personality \<Rightarrow> Some personality
           | None \<Rightarrow> Some fallback))"

text \<open>
  \<^verbatim>\<open>SimulationEngine.spawnNewAgent\<close>, on the Map and the world's birth counter
  (\<^verbatim>\<open>worldManager.incrementBirths()\<close>); \<open>personality\<close> is what
  \<^verbatim>\<open>generatePersonality\<close> returned.
\<close>

definition spawnNewAgent ::
  "NewAgentPersonality option \<Rightarrow> string \<Rightarrow> real option \<Rightarrow> bool \<Rightarrow> AgentMap \<times> nat
     \<Rightarrow> AgentMap \<times> nat" where
  "spawnNewAgent personality newId world_day insertOk st =
     (case personality of
        None \<Rightarrow> st
      | Some p \<Rightarrow>
          (case createAgent newId world_day insertOk p (fst st) of
             (Some newAgent, reg1) \<Rightarrow> (reg1, snd st + 1)
           | (None, reg1) \<Rightarrow> (reg1, snd st)))"

section \<open>Lifecycle rules: EventManager\<close>

record DeathRecord =
  death_id :: string
  death_name :: string
  cause :: string

text \<open>
  \<^verbatim>\<open>checkDeathConditions\<close> walks over \<^verbatim>\<open>getAgents()\<close>. \<open>rnd k\<close> is the value of the
  \<open>k\<close>-th call of \<^verbatim>\<open>Math.random()\<close> made during the walk; the counter moves only where
  the source makes the call.
\<close>

fun checkDeathLoop :: "(nat \<Rightarrow> real) \<Rightarrow> nat \<Rightarrow> Agent list \<Rightarrow> DeathRecord list" where
  "checkDeathLoop rnd k [] = []"
| "checkDeathLoop rnd k (agent # rest) =
     (if health (physical_state agent) \<le> 0
        then \<lparr> death_id = agent_id agent, death_name = agent_name agent,
               cause = ''health failure'' \<rparr> # checkDeathLoop rnd k rest
      else if age (physical_state agent) > 300
        then (if rnd k < (age (physical_state agent) - 300) * 0.002
                then \<lparr> death_id = agent_id agent, death_name = agent_name agent,
                       cause = ''old age'' \<rparr> # checkDeathLoop rnd (Suc k) rest
              else checkDeathLoop rnd (Suc k) rest)
      else checkDeathLoop rnd k rest)"

definition checkDeathConditions :: "(nat \<Rightarrow> real) \<Rightarrow> AgentMap \<Rightarrow> DeathRecord list" where
  "checkDeathConditions rnd reg = checkDeathLoop rnd 0 (getAgents reg)"

text \<open>
  \<^verbatim>\<open>shouldSpawnNewAgent\<close>; \<open>roll\<close> is the value of \<^verbatim>\<open>Math.random()\<close>, which is called
  only when the population is below 8.
\<close>

definition shouldSpawnNewAgent :: "real \<Rightarrow> AgentMap \<Rightarrow> bool" where
  "shouldSpawnNewAgent roll reg =
     (let agents = getAgents reg
      in if length agents \<ge> 10 then False
         else if length agents < 8 \<and> roll < 0.05 then True
         else False)"

text \<open>
  \<^verbatim>\<open>evaluateActionForReward(agent, action, target)\<close>. Each \<^verbatim>\<open>agents.forEach\<close> block
  visits every agent \<open>a\<close> of \<^verbatim>\<open>getAgents()\<close>, writes one field of \<^verbatim>\<open>a.physical_state\<close>
  or \<^verbatim>\<open>a.mental_state\<close> and calls \<^verbatim>\<open>updateAgent(a.id, ...)\<close> with that state object:
  the stored agent ends with the state of \<open>a\<close> in which the field is rewritten.
\<close>

datatype RewardType = health_boost | mood_boost | energy_boost | community_bonus

record RewardEvent =
  reward_type :: RewardType
  agentName :: string
  action :: string
  bonus :: string
  beneficiaries :: string

definition forEach_agents :: "(Agent \<Rightarrow> Agent \<Rightarrow> Agent) \<Rightarrow> AgentMap \<Rightarrow> AgentMap" where
  "forEach_agents body reg =
     fold (\<lambda>a r. updateAgent (agent_id a) (body a) r) (getAgents reg) reg"

definition reward_health :: "real \<Rightarrow> Agent \<Rightarrow> Agent \<Rightarrow> Agent" where
  "reward_health d a stored =
     stored \<lparr> physical_state :=
       (physical_state a) \<lparr> health := min 100 (health (physical_state a) + d) \<rparr> \<rparr>"

definition reward_energy :: "real \<Rightarrow> Agent \<Rightarrow> Agent \<Rightarrow> Agent" where
  "reward_energy d a stored =
     stored \<lparr> physical_state :=
       (physical_state a) \<lparr> energy := min 100 (energy (physical_state a) + d) \<rparr> \<rparr>"

definition reward_hunger :: "real \<Rightarrow> Agent \<Rightarrow> Agent \<Rightarrow> Agent" where
  "reward_hunger d a stored =
     stored \<lparr> physical_state :=
       (physical_state a) \<lparr> hunger := max 0 (hunger (physical_state a) - d) \<rparr> \<rparr>"

definition reward_mood :: "real \<Rightarrow> Agent \<Rightarrow> Agent \<Rightarrow> Agent" where
  "reward_mood d a stored =
     stored \<lparr> mental_state :=
       (mental_state a) \<lparr> mood_score := min 100 (mood_score (mental_state a) + d) \<rparr> \<rparr>"

text \<open>
  \<open>roll\<close> is the value of \<^verbatim>\<open>Math.random()\<close>. The source calls it behind a test on
  \<^verbatim>\<open>action\<close> (and, for work, on the profession); the tests exclude one another, so one
  run of the function makes at most one call. The second component collects the events
  handed to \<^verbatim>\<open>rewardCallback\<close>, in order. \<open>truthy\<close> is the JavaScript truth value of
  the optional string \<^verbatim>\<open>agent.profession\<close>.
\<close>

definition truthy :: "string option \<Rightarrow> bool" where
  "truthy s = (case s of None \<Rightarrow> False | Some v \<Rightarrow> v \<noteq> [])"

definition evaluateActionForReward ::
  "real \<Rightarrow> Agent \<Rightarrow> string \<Rightarrow> Agent option \<Rightarrow> AgentMap \<Rightarrow> AgentMap \<times> RewardEvent list" where
  "evaluateActionForReward roll agent act target reg =
     (let s1 =
            (if act = ''help'' \<or> act = ''heal'' \<or> act = ''teach''
               then (forEach_agents (reward_health 5) reg,
                     [\<lparr> reward_type = health_boost, agentName = agent_name agent,
                        action = (if act = ''heal'' then ''healed someone''
                                  else if act = ''teach'' then ''taught valuable knowledge''
                                  else ''helped a neighbor''),
                        bonus = ''+5 health to everyone'', beneficiaries = ''all'' \<rparr>])
             else (reg, []));
          s2 =
            (if (act = ''create_something'' \<or> act = ''write'') \<and> roll < 0.2
               then (forEach_agents (reward_mood 8) (fst s1),
                     snd s1 @
                     [\<lparr> reward_type = mood_boost, agentName = agent_name agent,
                        action = ''created inspiring art'',
                        bonus = ''+8 mood to everyone'', beneficiaries = ''all'' \<rparr>])
             else s1);
          s3 =
            (if act = ''share'' \<or> act = ''donate'' \<or> act = ''give''
               then (forEach_agents (reward_energy 6) (fst s2),
                     snd s2 @
                     [\<lparr> reward_type = energy_boost, agentName = agent_name agent,
                        action = ''shared resources with the community'',
                        bonus = ''+6 energy to everyone'', beneficiaries = ''all'' \<rparr>])
             else s2);
          s4 =
            (case target of
               Some t \<Rightarrow>
                 (if act = ''talk'' \<and> roll < 0.3
                     \<and> mood_score (mental_state agent) > 50 \<and> mood_score (mental_state t) > 50
                    then (forEach_agents (reward_mood 4) (fst s3),
                          snd s3 @
                          [\<lparr> reward_type = community_bonus,
                             agentName = agent_name agent @ '' & '' @ agent_name t,
                             action = ''had a heartwarming conversation'',
                             bonus = ''+4 mood to everyone'', beneficiaries = ''all'' \<rparr>])
                  else s3)
             | None \<Rightarrow> s3);
          s5 =
            (if act = ''work'' \<and> truthy (profession agent)
               then
                 (let w1 =
                        (if profession agent = Some ''healer'' \<and> roll < 0.15
                           then (forEach_agents (reward_health 3) (fst s4),
                                 snd s4 @
                                 [\<lparr> reward_type = health_boost, agentName = agent_name agent,
                                    action = ''provided excellent healthcare'',
                                    bonus = ''+3 health to everyone'', beneficiaries = ''all'' \<rparr>])
                         else s4);
                      w2 =
                        (if profession agent = Some ''farmer'' \<and> roll < 0.15
                           then (forEach_agents (reward_hunger 5) (fst w1),
                                 snd w1 @
                                 [\<lparr> reward_type = community_bonus, agentName = agent_name agent,
                                    action = ''harvested bountiful crops'',
                                    bonus = ''-5 hunger to everyone'', beneficiaries = ''all'' \<rparr>])
                         else w1);
                      w3 =
                        (if profession agent = Some ''scholar'' \<and> roll < 0.12
                           then (forEach_agents (reward_mood 5) (fst w2),
                                 snd w2 @
                                 [\<lparr> reward_type = mood_boost, agentName = agent_name agent,
                                    action = ''shared enlightening knowledge'',
                                    bonus = ''+5 mood to everyone'', beneficiaries = ''all'' \<rparr>])
                         else w2)
                  in w3)
             else s4)
      in s5)"

section \<open>Conversations: ConversationEngine\<close>

record ConversationTurn =
  speaker_id :: string
  speaker_name :: string
  content :: string
  inner_thought :: "string option"

text \<open>
  What \<^verbatim>\<open>getConversationResponse\<close> hands back as \<^verbatim>\<open>result.data\<close>. The function
  catches every error of the oracle call and answers \<^verbatim>\<open>{success: false}\<close>; the loop
  reads \<^verbatim>\<open>result?.success ? result.data : null\<close>, so a failed call is \<open>None\<close>.
\<close>

record ConversationResponse =
  dialogue :: string
  response_inner_thought :: "string option"

text \<open>\<^verbatim>\<open>Math.floor(Math.random() * 3) + 3\<close>, for the value \<open>r\<close> of \<^verbatim>\<open>Math.random()\<close>.\<close>

definition drawMaxTurns :: "real \<Rightarrow> nat" where
  "drawMaxTurns r = nat \<lfloor>r * 3\<rfloor> + 3"

text \<open>
  One iteration of the loop of \<^verbatim>\<open>runConversation\<close>; \<open>oracle i\<close> is the answer to the
  call made in iteration \<open>i\<close>. The one call to the registry in the loop,
  \<^verbatim>\<open>updateAgent(speaker.id, {mental_state: speaker.mental_state})\<close>, assigns to the stored
  object the field it already has. The persistence calls before and after the loop
  (memories, relationship, transcript) answer with \<^verbatim>\<open>{data, error}\<close> values and do not
  touch the registry; they are left out.
\<close>

definition conversationTurn ::
  "(nat \<Rightarrow> ConversationResponse option) \<Rightarrow> Agent \<Rightarrow> Agent \<Rightarrow> nat
     \<Rightarrow> ConversationTurn list \<Rightarrow> ConversationTurn list" where
  "conversationTurn oracle initiator target i turns =
     (let speaker = (if i mod 2 = 0 then initiator else target)
      in case oracle i of
           Some response \<Rightarrow>
             turns @ [\<lparr> speaker_id = agent_id speaker, speaker_name = agent_name speaker,
                        content = dialogue response,
                        inner_thought = response_inner_thought response \<rparr>]
         | None \<Rightarrow> turns)"

definition runConversation ::
  "real \<Rightarrow> (nat \<Rightarrow> ConversationResponse option) \<Rightarrow> Agent \<Rightarrow> Agent \<Rightarrow> ConversationTurn list" where
  "runConversation r oracle initiator target =
     (let maxTurns = drawMaxTurns r
      in fold (conversationTurn oracle initiator target) [0..<maxTurns] [])"

text \<open>
  \<^verbatim>\<open>startConversation\<close> in its three parts: the checks and the marking of both agents,
  the conversation itself, and the cleanup. An assignment to a field of \<^verbatim>\<open>initiator\<close>
  or \<^verbatim>\<open>target\<close> writes to the object the Map holds, and the \<^verbatim>\<open>updateAgent\<close> call
  that follows writes the same value again.
\<close>

definition startConversation_mark ::
  "string \<Rightarrow> string \<Rightarrow> AgentMap \<Rightarrow> (Agent \<times> Agent \<times> AgentMap) option" where
  "startConversation_mark initiatorId targetId reg =
     (case getAgent initiatorId reg of
        None \<Rightarrow> None
      | Some initiator \<Rightarrow>
        (case getAgent targetId reg of
           None \<Rightarrow> None
         | Some target \<Rightarrow>
             if current_activity target = ''sleeping''
                \<or> current_activity target = ''in conversation''
                \<or> current_activity target = ''eating''
               then None
             else if current_location initiator \<noteq> current_location target
               then None
             else
               (let busy = (\<lambda>a. a \<lparr> current_activity := ''in conversation'' \<rparr>);
                    reg1 = updateAgent (agent_id initiator) busy reg;
                    reg2 = updateAgent (agent_id target) busy reg1;
                    reg3 = updateAgent initiatorId busy reg2;
                    reg4 = updateAgent targetId busy reg3
                in Some (busy initiator, busy target, reg4))))"

definition startConversation_cleanup ::
  "string \<Rightarrow> string \<Rightarrow> Agent \<Rightarrow> Agent \<Rightarrow> AgentMap \<Rightarrow> AgentMap" where
  "startConversation_cleanup initiatorId targetId initiator target reg =
     (let at_initiator = (\<lambda>a. a \<lparr> current_activity := ''at '' @ current_location initiator \<rparr>);
          at_target = (\<lambda>a. a \<lparr> current_activity := ''at '' @ current_location target \<rparr>);
          reg1 = updateAgent (agent_id initiator) at_initiator reg;
          reg2 = updateAgent (agent_id target) at_target reg1;
          reg3 = updateAgent initiatorId at_initiator reg2;
          reg4 = updateAgent targetId at_target reg3
      in reg4)"

definition startConversation ::
  "real \<Rightarrow> (nat \<Rightarrow> ConversationResponse option) \<Rightarrow> string \<Rightarrow> string \<Rightarrow> AgentMap
     \<Rightarrow> AgentMap \<times> ConversationTurn list option" where
  "startConversation r oracle initiatorId targetId reg =
     (case startConversation_mark initiatorId targetId reg of
        None \<Rightarrow> (reg, None)
      | Some (initiator, target, reg1) \<Rightarrow>
          (let turns = runConversation r oracle initiator target
           in (startConversation_cleanup initiatorId targetId initiator target reg1,
               Some turns)))"

section \<open>Declared ranges\<close>

text \<open>
  The declared ranges: health, hunger and energy in 0 to 100, the mood score in -100 to
  100 (\<^verbatim>\<open>frontend/lib/types.ts\<close>: \<^verbatim>\<open>mood_score: number; // -100 to 100\<close>).
\<close>

definition within_bounds :: "Agent \<Rightarrow> bool" where
  "within_bounds a =
     (0 \<le> health (physical_state a) \<and> health (physical_state a) \<le> 100
      \<and> 0 \<le> hunger (physical_state a) \<and> hunger (physical_state a) \<le> 100
      \<and> 0 \<le> energy (physical_state a) \<and> energy (physical_state a) \<le> 100
      \<and> - 100 \<le> mood_score (mental_state a) \<and> mood_score (mental_state a) \<le> 100)"

section \<open>The reward rules as a table\<close>

text \<open>
  The design describes the reward rules as a table of trigger predicate, probability,
  affected field and delta, applied to every agent with the result clamped to the
  field's bounds. \<open>reward_table\<close> is that table, filled with the categories and the
  configured values of \<^verbatim>\<open>evaluateActionForReward\<close>: it says which rule, if any, triggers
  for an action and a roll, and names its field and signed delta. \<open>apply_reward\<close> adds
  the delta to the field and clamps the result at the bound the delta moves it towards.
\<close>

datatype RewardField = Health | Energy | Hunger | MoodScore

definition reward_table ::
  "real \<Rightarrow> Agent \<Rightarrow> string \<Rightarrow> Agent option \<Rightarrow> (RewardField \<times> real) option" where
  "reward_table roll agent act target =
     (if act = ''help'' \<or> act = ''heal'' \<or> act = ''teach'' then Some (Health, 5)
      else if act = ''create_something'' \<or> act = ''write''
        then (if roll < 0.2 then Some (MoodScore, 8) else None)
      else if act = ''share'' \<or> act = ''donate'' \<or> act = ''give'' then Some (Energy, 6)
      else if act = ''talk''
        then (case target of
                None \<Rightarrow> None
              | Some t \<Rightarrow>
                  if roll < 0.3 \<and> mood_score (mental_state agent) > 50
                     \<and> mood_score (mental_state t) > 50
                  then Some (MoodScore, 4) else None)
      else if act = ''work''
        then (if profession agent = Some ''healer''
                then (if roll < 0.15 then Some (Health, 3) else None)
              else if profession agent = Some ''farmer''
                then (if roll < 0.15 then Some (Hunger, - 5) else None)
              else if profession agent = Some ''scholar''
                then (if roll < 0.12 then Some (MoodScore, 5) else None)
              else None)
      else None)"

definition toward_bound :: "real \<Rightarrow> real \<Rightarrow> real \<Rightarrow> real \<Rightarrow> real" where
  "toward_bound lo hi d x = (if 0 \<le> d then min hi (x + d) else max lo (x + d))"

fun apply_reward :: "RewardField \<times> real \<Rightarrow> Agent \<Rightarrow> Agent" where
  "apply_reward (Health, d) a =
     a \<lparr> physical_state :=
           (physical_state a) \<lparr> health := toward_bound 0 100 d (health (physical_state a)) \<rparr> \<rparr>"
| "apply_reward (Energy, d) a =
     a \<lparr> physical_state :=
           (physical_state a) \<lparr> energy := toward_bound 0 100 d (energy (physical_state a)) \<rparr> \<rparr>"
| "apply_reward (Hunger, d) a =
     a \<lparr> physical_state :=
           (physical_state a) \<lparr> hunger := toward_bound 0 100 d (hunger (physical_state a)) \<rparr> \<rparr>"
| "apply_reward (MoodScore, d) a =
     a \<lparr> mental_state :=
           (mental_state a)
             \<lparr> mood_score := toward_bound (- 100) 100 d (mood_score (mental_state a)) \<rparr> \<rparr>"

text \<open>
  The field a reward rule targets, read from an agent, and the bounds of that field.
\<close>

fun field_value :: "RewardField \<Rightarrow> Agent \<Rightarrow> real" where
  "field_value Health a = health (physical_state a)"
| "field_value Energy a = energy (physical_state a)"
| "field_value Hunger a = hunger (physical_state a)"
| "field_value MoodScore a = mood_score (mental_state a)"

fun field_lo :: "RewardField \<Rightarrow> real" where
  "field_lo Health = 0"
| "field_lo Energy = 0"
| "field_lo Hunger = 0"
| "field_lo MoodScore = - 100"

section \<open>Sample states\<close>

text \<open>
  Concrete agents for evaluating the functions above: id (also used as name), location,
  activity, health, hunger, energy, mood score and the \<^verbatim>\<open>is_alive\<close> flag.
\<close>

definition sample_agent ::
  "string \<Rightarrow> string \<Rightarrow> string \<Rightarrow> real \<Rightarrow> real \<Rightarrow> real \<Rightarrow> real \<Rightarrow> bool \<Rightarrow> Agent" where
  "sample_agent i loc act h hu en ms alive =
     \<lparr> agent_id = i,
       agent_name = i,
       physical_state = \<lparr> health = h, hunger = hu, energy = en, age = 0 \<rparr>,
       mental_state =
         \<lparr> mood = ''curious'', mood_score = ms, current_thought = ''A new day begins...'',
           worries = [], desires = [], secrets = [] \<rparr>,
       current_location = loc,
       current_activity = act,
       is_alive = alive,
       born_on_day = 1,
       died_on_day = None,
       death_cause = None,
       profession = None \<rparr>"

definition hungry_tired_agent :: Agent where
  "hungry_tired_agent = sample_agent ''ada'' ''cafe'' ''idle'' 50 95 5 0 True"

definition out_of_range_agent :: Agent where
  "out_of_range_agent = sample_agent ''oz'' ''cafe'' ''idle'' 150 50 200 500 True"

definition exhausted_eater :: Agent where
  "exhausted_eater = sample_agent ''eve'' ''cafe'' ''eating'' 50 50 5 0 True"

definition exhausted_walker :: Agent where
  "exhausted_walker = sample_agent ''wim'' ''park'' ''walking'' 50 50 5 0 True"

definition dead_agent :: Agent where
  "dead_agent = sample_agent ''dan'' ''homes'' ''idle'' 0 95 5 0 False"

definition alice :: Agent where
  "alice = sample_agent ''alice'' ''cafe'' ''idle'' 90 20 80 60 True"

definition bob :: Agent where
  "bob = sample_agent ''bob'' ''cafe'' ''idle'' 90 20 80 60 True"

text \<open>An oracle whose second call fails, one that never fails, and an answer.\<close>

definition hello :: ConversationResponse where
  "hello = \<lparr> dialogue = ''Hello'', response_inner_thought = None \<rparr>"

definition flaky_oracle :: "nat \<Rightarrow> ConversationResponse option" where
  "flaky_oracle i = (if i = 1 then None else Some hello)"

definition steady_oracle :: "nat \<Rightarrow> ConversationResponse option" where
  "steady_oracle i = Some hello"

definition no_draw :: "nat \<Rightarrow> real" where
  "no_draw k = 1"

definition sample_personality :: NewAgentPersonality where
  "sample_personality =
     \<lparr> p_name = ''Kai Berg'', p_age = 30, personality_traits = [''curious''],
       core_desire = ''To find meaning in life'', deepest_fear = ''Being alone forever'',
       secret = ''A past they prefer not to discuss'', initial_location = ''Town Square'' \<rparr>"

definition starving_agent :: Agent where
  "starving_agent = sample_agent ''sam'' ''homes'' ''idle'' 0 100 50 0 True"

definition old_agent :: Agent where
  "old_agent =
     (sample_agent ''old'' ''park'' ''idle'' 80 20 80 0 True)
       \<lparr> physical_state := \<lparr> health = 80, hunger = 20, energy = 80, age = 400 \<rparr> \<rparr>"

definition low_draw :: "nat \<Rightarrow> real" where
  "low_draw k = 0"

definition crowd :: AgentMap where
  "crowd =
     [sample_agent ''a0'' ''cafe'' ''idle'' 90 20 80 60 True,
      sample_agent ''a1'' ''cafe'' ''idle'' 90 20 80 60 True,
      sample_agent ''a2'' ''cafe'' ''idle'' 90 20 80 60 True,
      sample_agent ''a3'' ''cafe'' ''idle'' 90 20 80 60 True,
      sample_agent ''a4'' ''cafe'' ''idle'' 90 20 80 60 True,
      sample_agent ''a5'' ''cafe'' ''idle'' 90 20 80 60 True,
      sample_agent ''a6'' ''cafe'' ''idle'' 90 20 80 60 True,
      sample_agent ''a7'' ''cafe'' ''idle'' 90 20 80 60 True,
      sample_agent ''a8'' ''cafe'' ''idle'' 90 20 80 60 True,
      sample_agent ''a9'' ''cafe'' ''idle'' 90 20 80 60 True]"

definition healthy_agent :: Agent where
  "healthy_agent = sample_agent ''hal'' ''cafe'' ''idle'' 98 20 80 60 True"

definition gloomy_agent :: Agent where
  "gloomy_agent = sample_agent ''gus'' ''cafe'' ''idle'' 90 20 80 (- 150) True"

text \<open>
  A personality as lines 51 to 75 build it from a generator reply that carries none of
  the fields they read, and a \<open>build\<close> that ends with it.
\<close>

definition default_personality :: NewAgentPersonality where
  "default_personality =
     \<lparr> p_name = ''Alex Chen'', p_age = 30, personality_traits = [''curious''],
       core_desire = ''To find purpose'', deepest_fear = ''Being forgotten'',
       secret = ''A mystery from their past'', initial_location = ''Town Square'' \<rparr>"

definition sample_build :: "GeneratorReply \<Rightarrow> NewAgentPersonality option" where
  "sample_build reply = Some default_personality"

section \<open>The Map operations\<close>

lemma agents_set_mid:
  "agent_id b = agent_id a \<Longrightarrow> agent_id a \<notin> agent_id ` set pre \<Longrightarrow>
   agents_set a (pre @ b # ys) = pre @ a # ys"
  by (induction pre) auto

lemma agents_get_set:
  "agents_get i (agents_set a reg) = (if i = agent_id a then Some a else agents_get i reg)"
  by (induction reg) (auto simp: agents_get_def)


lemma agents_get_map:
  assumes "\<And>a. agent_id (f a) = agent_id a"
  shows "agents_get i (map f reg) = map_option f (agents_get i reg)"
  by (induction reg) (auto simp: agents_get_def assms)

lemma agents_get_mem:
  "wf_agents reg \<Longrightarrow> a \<in> set reg \<Longrightarrow> agents_get (agent_id a) reg = Some a"
  unfolding wf_agents_def by (induction reg) (auto simp: agents_get_def)

lemma wf_agents_same_id:
  "wf_agents reg \<Longrightarrow> a \<in> set reg \<Longrightarrow> b \<in> set reg \<Longrightarrow> agent_id a = agent_id b \<Longrightarrow> a = b"
  by (auto simp: wf_agents_def distinct_map inj_on_def)


section \<open>The decay pass\<close>

lemma decayAgent_id: "agent_id (decayAgent n a) = agent_id a"
  by (simp add: decayAgent_def Let_def)

text \<open>
  A loop that stores \<open>f agent\<close> for every agent of a filtered snapshot rewrites exactly
  the entries the filter selects, as long as the ids are distinct and \<open>f\<close> keeps them.
\<close>

lemma fold_set_filter:
  assumes "\<And>a. agent_id (f a) = agent_id a"
  shows "distinct (map agent_id (pre @ ys)) \<Longrightarrow>
   fold (\<lambda>agent r. agents_set (f agent) r) (filter P ys) (pre @ ys)
     = pre @ map (\<lambda>a. if P a then f a else a) ys"
proof (induction ys arbitrary: pre)
  case Nil
  then show ?case by simp
next
  case (Cons y ys)
  show ?case
  proof (cases "P y")
    case True
    have notin: "agent_id (f y) \<notin> agent_id ` set pre"
      using Cons.prems by (auto simp: assms)
    have step: "agents_set (f y) (pre @ y # ys) = (pre @ [f y]) @ ys"
      using agents_set_mid [of y "f y" pre ys] notin by (simp add: assms)
    have d: "distinct (map agent_id ((pre @ [f y]) @ ys))"
      using Cons.prems by (simp add: assms)
    show ?thesis
      using True Cons.IH [OF d] step by simp
  next
    case False
    have d: "distinct (map agent_id ((pre @ [y]) @ ys))"
      using Cons.prems by simp
    show ?thesis
      using False Cons.IH [OF d] by simp
  qed
qed

lemma updatePhysicalNeeds_map:
  "wf_agents reg \<Longrightarrow>
   updatePhysicalNeeds n reg = map (\<lambda>a. if is_alive a then decayAgent n a else a) reg"
  using fold_set_filter [of "decayAgent n" "[]" reg is_alive]
  by (simp add: updatePhysicalNeeds_def getLivingAgents_def wf_agents_def decayAgent_id)

lemma updatePhysicalNeeds_get:
  assumes "wf_agents reg" "a \<in> set reg"
  shows "agents_get (agent_id a) (updatePhysicalNeeds n reg)
           = Some (if is_alive a then decayAgent n a else a)"
proof -
  have "agents_get (agent_id a) (map (\<lambda>a. if is_alive a then decayAgent n a else a) reg)
          = map_option (\<lambda>a. if is_alive a then decayAgent n a else a) (agents_get (agent_id a) reg)"
    by (rule agents_get_map) (simp add: decayAgent_id)
  then show ?thesis
    using assms by (simp add: updatePhysicalNeeds_map agents_get_mem)
qed

lemma decay_hunger:
  "hunger (physical_state (decayAgent n a)) = min 100 (hunger (physical_state a) + 0.5)"
  by (simp add: decayAgent_def Let_def)

lemma decay_energy:
  "energy (physical_state (decayAgent n a)) =
     (if n \<and> current_activity a \<noteq> ''sleeping'' then max 0 (energy (physical_state a) - 1.5)
      else if current_activity a = ''sleeping'' then min 100 (energy (physical_state a) + 45)
      else max 0 (energy (physical_state a) - 0.8))"
  by (simp add: decayAgent_def Let_def)

lemma decayAgent_scenario:
  assumes "hunger (physical_state a) = 95" "energy (physical_state a) = 5"
    "health (physical_state a) = 50" "current_activity a \<noteq> ''sleeping''"
  shows "hunger (physical_state (decayAgent True a)) = 95.5"
    and "energy (physical_state (decayAgent True a)) = 3.5"
    and "health (physical_state (decayAgent True a)) = 50 - 1.5 - 0.3"
  using assms by (simp_all add: decayAgent_def Let_def)

lemmas sample_defs =
  sample_agent_def hungry_tired_agent_def out_of_range_agent_def exhausted_eater_def
  exhausted_walker_def dead_agent_def alice_def bob_def

lemmas pass_defs =
  updatePhysicalNeeds_def getLivingAgents_def decayAgent_def Let_def agents_get_def
  wf_agents_def within_bounds_def

text \<open>
  C2 (amended). A living agent that enters one decay pass at night with hunger 95,
  energy 5 and health 50 and is not sleeping leaves it with hunger 95.5 (the pass adds
  0.5; the bound 100 is not reached), energy 3.5 (the awake-at-night delta 1.5) and health
  48.2 (both the hunger penalty 1.5 and the low-energy penalty 0.3).
\<close>

theorem decay_scenario_hungry_tired_at_night:
  assumes "wf_agents reg" and "a \<in> set reg" and "is_alive a"
    and "hunger (physical_state a) = 95" and "energy (physical_state a) = 5"
    and "health (physical_state a) = 50" and "current_activity a \<noteq> ''sleeping''"
  shows "\<exists>a'. agents_get (agent_id a) (updatePhysicalNeeds True reg) = Some a'
           \<and> hunger (physical_state a') = 95.5
           \<and> energy (physical_state a') = 3.5 \<and> energy (physical_state a') < 5
           \<and> health (physical_state a') = 50 - 1.5 - 0.3 \<and> health (physical_state a') < 50"
proof -
  have "agents_get (agent_id a) (updatePhysicalNeeds True reg) = Some (decayAgent True a)"
    using assms(1-3) by (simp add: updatePhysicalNeeds_get)
  moreover have "hunger (physical_state (decayAgent True a)) = 95.5"
    and "energy (physical_state (decayAgent True a)) = 3.5"
    and "health (physical_state (decayAgent True a)) = 50 - 1.5 - 0.3"
    using assms(4-7) by (rule decayAgent_scenario)+
  ultimately show ?thesis by simp
qed

theorem decay_scenario_hungry_tired_at_night_witness:
  "wf_agents [dead_agent, hungry_tired_agent]
   \<and> hungry_tired_agent \<in> set [dead_agent, hungry_tired_agent]
   \<and> is_alive hungry_tired_agent
   \<and> hunger (physical_state hungry_tired_agent) = 95
   \<and> energy (physical_state hungry_tired_agent) = 5
   \<and> health (physical_state hungry_tired_agent) = 50
   \<and> current_activity hungry_tired_agent \<noteq> ''sleeping''
   \<and> (\<exists>a'. agents_get (agent_id hungry_tired_agent)
              (updatePhysicalNeeds True [dead_agent, hungry_tired_agent]) = Some a'
           \<and> hunger (physical_state a') = 95.5
           \<and> energy (physical_state a') = 3.5 \<and> energy (physical_state a') < 5
           \<and> health (physical_state a') = 50 - 1.5 - 0.3 \<and> health (physical_state a') < 50)"
proof -
  have h1: "wf_agents [dead_agent, hungry_tired_agent]"
    and h2: "hungry_tired_agent \<in> set [dead_agent, hungry_tired_agent]"
    and h3: "is_alive hungry_tired_agent"
    and h4: "hunger (physical_state hungry_tired_agent) = 95"
    and h5: "energy (physical_state hungry_tired_agent) = 5"
    and h6: "health (physical_state hungry_tired_agent) = 50"
    and h7: "current_activity hungry_tired_agent \<noteq> ''sleeping''"
    by (simp_all add: sample_defs wf_agents_def)
  show ?thesis
    using h1 h2 h3 h4 h5 h6 h7
      decay_scenario_hungry_tired_at_night [OF h1 h2 h3 h4 h5 h6 h7]
    by blast
qed

text \<open>
  C2 as stated fails: for the agent of the scenario the pass leaves hunger at 95.5, not
  at 100.
\<close>

theorem decay_scenario_hunger_not_clamped:
  "length (updatePhysicalNeeds True [hungry_tired_agent]) = 1
   \<and> hunger (physical_state hungry_tired_agent) = 95
   \<and> hunger (physical_state (hd (updatePhysicalNeeds True [hungry_tired_agent]))) = 95.5
   \<and> hunger (physical_state (hd (updatePhysicalNeeds True [hungry_tired_agent]))) \<noteq> 100"
  by (simp add: sample_defs pass_defs)


lemma decay_health_lower:
  "0 \<le> health (physical_state a) \<Longrightarrow> 0 \<le> health (physical_state (decayAgent n a))"
  by (simp add: decayAgent_def Let_def min_def max_def)

lemma decay_health_upper:
  "health (physical_state a) \<le> 100 \<Longrightarrow> health (physical_state (decayAgent n a)) \<le> 100"
  by (simp add: decayAgent_def Let_def min_def max_def)

lemma decay_mood_lower:
  "- 100 \<le> mood_score (mental_state a)
   \<Longrightarrow> - 100 \<le> mood_score (mental_state (decayAgent n a))"
  by (simp add: decayAgent_def Let_def min_def)

lemma decay_mood_upper:
  "mood_score (mental_state a) \<le> 100 \<Longrightarrow> mood_score (mental_state (decayAgent n a)) \<le> 100"
  by (simp add: decayAgent_def Let_def min_def)

lemma decay_hunger_bounds:
  "hunger (physical_state (decayAgent n a)) \<le> 100
   \<and> (0 \<le> hunger (physical_state a) \<longrightarrow> 0 \<le> hunger (physical_state (decayAgent n a)))"
  by (simp add: decay_hunger min_def)

lemma decay_energy_bounds:
  "(if current_activity a = ''sleeping''
      then energy (physical_state (decayAgent n a)) \<le> 100
      else 0 \<le> energy (physical_state (decayAgent n a)))
   \<and> (0 \<le> energy (physical_state a) \<longrightarrow> 0 \<le> energy (physical_state (decayAgent n a)))
   \<and> (energy (physical_state a) \<le> 100 \<longrightarrow> energy (physical_state (decayAgent n a)) \<le> 100)"
  by (simp add: decay_energy min_def max_def)

text \<open>
  C3 (amended). For every agent and each of the eight bounds 0 \<open>\<le>\<close> health, health \<open>\<le>\<close> 100,
  0 \<open>\<le>\<close> hunger, hunger \<open>\<le>\<close> 100, 0 \<open>\<le>\<close> energy, energy \<open>\<le>\<close> 100, -100 \<open>\<le>\<close> mood score and
  mood score \<open>\<le>\<close> 100: a bound that holds on entry holds after one decay pass, so a field
  that starts within its range ends within it. Whatever the input, after the pass a living
  agent has hunger \<open>\<le>\<close> 100, and energy \<open>\<le>\<close> 100 if its activity is 'sleeping' and
  0 \<open>\<le>\<close> energy otherwise.
\<close>

theorem decay_keeps_fields_within_bounds:
  assumes "wf_agents reg" and "a \<in> set reg"
  shows "\<exists>a'. agents_get (agent_id a) (updatePhysicalNeeds isNighttime reg) = Some a'
     \<and> (0 \<le> health (physical_state a) \<longrightarrow> 0 \<le> health (physical_state a'))
     \<and> (health (physical_state a) \<le> 100 \<longrightarrow> health (physical_state a') \<le> 100)
     \<and> (0 \<le> hunger (physical_state a) \<longrightarrow> 0 \<le> hunger (physical_state a'))
     \<and> (hunger (physical_state a) \<le> 100 \<longrightarrow> hunger (physical_state a') \<le> 100)
     \<and> (0 \<le> energy (physical_state a) \<longrightarrow> 0 \<le> energy (physical_state a'))
     \<and> (energy (physical_state a) \<le> 100 \<longrightarrow> energy (physical_state a') \<le> 100)
     \<and> (- 100 \<le> mood_score (mental_state a) \<longrightarrow> - 100 \<le> mood_score (mental_state a'))
     \<and> (mood_score (mental_state a) \<le> 100 \<longrightarrow> mood_score (mental_state a') \<le> 100)
     \<and> (is_alive a \<longrightarrow>
          hunger (physical_state a') \<le> 100
          \<and> (if current_activity a = ''sleeping''
                then energy (physical_state a') \<le> 100
                else 0 \<le> energy (physical_state a')))"
proof (cases "is_alive a")
  case True
  then have "agents_get (agent_id a) (updatePhysicalNeeds isNighttime reg)
      = Some (decayAgent isNighttime a)"
    using assms by (simp add: updatePhysicalNeeds_get)
  then show ?thesis
    using decay_health_lower [of a isNighttime] decay_health_upper [of a isNighttime]
      decay_mood_lower [of a isNighttime] decay_mood_upper [of a isNighttime]
      decay_hunger_bounds [of isNighttime a] decay_energy_bounds [of a isNighttime]
    by simp
next
  case False
  then have "agents_get (agent_id a) (updatePhysicalNeeds isNighttime reg) = Some a"
    using assms by (simp add: updatePhysicalNeeds_get)
  then show ?thesis
    using False by simp
qed

theorem decay_keeps_fields_within_bounds_witness:
  "wf_agents [out_of_range_agent, alice]
   \<and> alice \<in> set [out_of_range_agent, alice]
   \<and> out_of_range_agent \<in> set [out_of_range_agent, alice]
   \<and> within_bounds alice \<and> is_alive alice \<and> current_activity alice \<noteq> ''sleeping''
   \<and> (\<exists>a'. agents_get (agent_id alice)
              (updatePhysicalNeeds False [out_of_range_agent, alice]) = Some a'
          \<and> within_bounds a')
   \<and> 0 \<le> hunger (physical_state out_of_range_agent)
   \<and> hunger (physical_state out_of_range_agent) \<le> 100
   \<and> 0 \<le> energy (physical_state out_of_range_agent)
   \<and> \<not> energy (physical_state out_of_range_agent) \<le> 100
   \<and> (\<exists>a'. agents_get (agent_id out_of_range_agent)
              (updatePhysicalNeeds False [out_of_range_agent, alice]) = Some a'
          \<and> 0 \<le> hunger (physical_state a') \<and> hunger (physical_state a') \<le> 100
          \<and> 0 \<le> energy (physical_state a'))"
proof -
  have wf: "wf_agents [out_of_range_agent, alice]"
    and m1: "alice \<in> set [out_of_range_agent, alice]"
    and m2: "out_of_range_agent \<in> set [out_of_range_agent, alice]"
    by (simp_all add: sample_defs wf_agents_def)
  have al: "within_bounds alice \<and> is_alive alice \<and> current_activity alice \<noteq> ''sleeping''"
    by (simp add: sample_defs within_bounds_def)
  have oz: "0 \<le> hunger (physical_state out_of_range_agent)
      \<and> hunger (physical_state out_of_range_agent) \<le> 100
      \<and> 0 \<le> energy (physical_state out_of_range_agent)
      \<and> \<not> energy (physical_state out_of_range_agent) \<le> 100"
    by (simp add: sample_defs)
  from decay_keeps_fields_within_bounds [OF wf m1, of False] al
  have 1: "\<exists>a'. agents_get (agent_id alice)
              (updatePhysicalNeeds False [out_of_range_agent, alice]) = Some a'
          \<and> within_bounds a'"
    unfolding within_bounds_def by blast
  from decay_keeps_fields_within_bounds [OF wf m2, of False] oz
  have 2: "\<exists>a'. agents_get (agent_id out_of_range_agent)
              (updatePhysicalNeeds False [out_of_range_agent, alice]) = Some a'
          \<and> 0 \<le> hunger (physical_state a') \<and> hunger (physical_state a') \<le> 100
          \<and> 0 \<le> energy (physical_state a')"
    by blast
  from wf m1 m2 al oz 1 2 show ?thesis
    by blast
qed

text \<open>
  C3 as stated fails: an agent that enters the pass with health 150, energy 200 and mood
  score 500 leaves it with health 150, energy 199.2 and mood score 500.
\<close>

theorem decay_does_not_repair_out_of_range:
  "health (physical_state (hd (updatePhysicalNeeds False [out_of_range_agent]))) = 150
   \<and> energy (physical_state (hd (updatePhysicalNeeds False [out_of_range_agent]))) = 199.2
   \<and> mood_score (mental_state (hd (updatePhysicalNeeds False [out_of_range_agent]))) = 500
   \<and> \<not> within_bounds (hd (updatePhysicalNeeds False [out_of_range_agent]))"
  by (simp add: sample_defs pass_defs)

text \<open>
  C10. The decay pass leaves every agent whose \<^verbatim>\<open>is_alive\<close> flag is false as it
  was: the Map holds the same record (vitals, mood, age, location, activity and all
  other fields) under its id after the pass.
\<close>

theorem decay_leaves_dead_agents_unchanged:
  assumes "wf_agents reg" and "a \<in> set reg" and "\<not> is_alive a"
  shows "agents_get (agent_id a) (updatePhysicalNeeds isNighttime reg) = Some a"
  using assms by (simp add: updatePhysicalNeeds_get)

theorem decay_leaves_dead_agents_unchanged_witness:
  "wf_agents [hungry_tired_agent, dead_agent]
   \<and> dead_agent \<in> set [hungry_tired_agent, dead_agent]
   \<and> \<not> is_alive dead_agent
   \<and> agents_get (agent_id dead_agent) (updatePhysicalNeeds True [hungry_tired_agent, dead_agent])
       = Some dead_agent"
proof -
  have h1: "wf_agents [hungry_tired_agent, dead_agent]"
    and h2: "dead_agent \<in> set [hungry_tired_agent, dead_agent]"
    and h3: "\<not> is_alive dead_agent"
    by (simp_all add: sample_defs wf_agents_def)
  show ?thesis
    using h1 h2 h3 decay_leaves_dead_agents_unchanged [OF h1 h2 h3] by blast
qed

section \<open>The eligibility query\<close>

lemma filter_st_needsDecision:
  "distinct (map agent_id (pre @ ys)) \<Longrightarrow>
   filter_st needsDecision (filter is_alive ys) (pre @ ys) =
     (filter (\<lambda>a. is_alive a \<and> current_activity a \<noteq> ''sleeping''
                \<and> current_activity a \<noteq> ''eating''
                \<and> current_activity a \<noteq> ''in_conversation''
                \<and> \<not> energy (physical_state a) < 10) ys,
      pre @ map (\<lambda>a. if is_alive a \<and> current_activity a \<noteq> ''sleeping''
                        \<and> current_activity a \<noteq> ''eating''
                        \<and> current_activity a \<noteq> ''in_conversation''
                        \<and> energy (physical_state a) < 10
                      then a \<lparr> current_activity := ''sleeping'' \<rparr> else a) ys)"
proof (induction ys arbitrary: pre)
  case Nil
  then show ?case by simp
next
  case (Cons y ys)
  have d: "distinct (map agent_id ((pre @ [y]) @ ys))"
    using Cons.prems by simp
  show ?case
  proof (cases "is_alive y \<and> current_activity y \<noteq> ''sleeping''
                \<and> current_activity y \<noteq> ''eating''
                \<and> current_activity y \<noteq> ''in_conversation''
                \<and> energy (physical_state y) < 10")
    case True
    let ?y = "y \<lparr> current_activity := ''sleeping'' \<rparr>"
    have notin: "agent_id ?y \<notin> agent_id ` set pre"
      using Cons.prems by auto
    have step: "agents_set ?y (pre @ y # ys) = (pre @ [?y]) @ ys"
      using agents_set_mid [of y ?y pre ys] notin by simp
    have d': "distinct (map agent_id ((pre @ [?y]) @ ys))"
      using Cons.prems by simp
    show ?thesis
      using True Cons.IH [OF d'] step by (simp add: needsDecision_def)
  next
    case False
    then show ?thesis
      using Cons.IH [OF d] by (auto simp: needsDecision_def)
  qed
qed

lemma getAgentsNeedingDecisions_eq:
  "wf_agents reg \<Longrightarrow>
   getAgentsNeedingDecisions reg =
     (filter (\<lambda>a. is_alive a \<and> current_activity a \<noteq> ''sleeping''
                \<and> current_activity a \<noteq> ''eating''
                \<and> current_activity a \<noteq> ''in_conversation''
                \<and> \<not> energy (physical_state a) < 10) reg,
      map (\<lambda>a. if is_alive a \<and> current_activity a \<noteq> ''sleeping''
                        \<and> current_activity a \<noteq> ''eating''
                        \<and> current_activity a \<noteq> ''in_conversation''
                        \<and> energy (physical_state a) < 10
                      then a \<lparr> current_activity := ''sleeping'' \<rparr> else a) reg)"
  using filter_st_needsDecision [of "[]" reg]
  by (simp add: getAgentsNeedingDecisions_def getLivingAgents_def wf_agents_def)

lemmas query_defs =
  getAgentsNeedingDecisions_def getLivingAgents_def needsDecision_def agents_get_def
  wf_agents_def

text \<open>
  C4 (amended). The eligibility query never returns an agent whose activity is
  'sleeping', 'eating' or 'in_conversation'. Every live agent whose energy is below 10 on
  entry is excluded from the result; when the call returns its activity is 'sleeping',
  unless its activity on entry was 'eating' or 'in_conversation', in which case the
  query leaves the agent as it was.
\<close>

theorem eligible_query_skips_and_autosleeps:
  assumes "wf_agents reg"
  shows "(\<forall>a \<in> set (fst (getAgentsNeedingDecisions reg)).
            current_activity a \<noteq> ''sleeping'' \<and> current_activity a \<noteq> ''eating''
            \<and> current_activity a \<noteq> ''in_conversation'')
       \<and> (\<forall>a \<in> set reg. is_alive a \<and> energy (physical_state a) < 10 \<longrightarrow>
            agent_id a \<notin> agent_id ` set (fst (getAgentsNeedingDecisions reg))
            \<and> agents_get (agent_id a) (snd (getAgentsNeedingDecisions reg)) =
                Some (if current_activity a = ''eating'' \<or> current_activity a = ''in_conversation''
                      then a else a \<lparr> current_activity := ''sleeping'' \<rparr>))"
proof -
  let ?g = "\<lambda>a. if is_alive a \<and> current_activity a \<noteq> ''sleeping''
                        \<and> current_activity a \<noteq> ''eating''
                        \<and> current_activity a \<noteq> ''in_conversation''
                        \<and> energy (physical_state a) < 10
                      then a \<lparr> current_activity := ''sleeping'' \<rparr> else a"
  have get: "agents_get i (map ?g reg) = map_option ?g (agents_get i reg)" for i
    by (rule agents_get_map) simp
  have sleeping: "current_activity a = ''sleeping'' \<Longrightarrow> a \<lparr> current_activity := ''sleeping'' \<rparr> = a"
    for a :: Agent by simp
  have excluded: "agent_id a \<notin> agent_id ` set (fst (getAgentsNeedingDecisions reg))"
    if "a \<in> set reg" and "energy (physical_state a) < 10" for a
  proof
    assume "agent_id a \<in> agent_id ` set (fst (getAgentsNeedingDecisions reg))"
    then obtain b where b: "b \<in> set reg" "\<not> energy (physical_state b) < 10"
      and "agent_id a = agent_id b"
      using assms by (auto simp: getAgentsNeedingDecisions_eq)
    then have "a = b"
      using assms that(1) by (simp add: wf_agents_same_id)
    then show False
      using that(2) b(2) by simp
  qed
  show ?thesis
    using assms excluded
    by (auto simp: getAgentsNeedingDecisions_eq get agents_get_mem sleeping)
qed

theorem eligible_query_skips_and_autosleeps_witness:
  "wf_agents [alice, exhausted_walker, exhausted_eater]
   \<and> fst (getAgentsNeedingDecisions [alice, exhausted_walker, exhausted_eater]) = [alice]
   \<and> agent_id exhausted_walker
        \<notin> agent_id ` set (fst (getAgentsNeedingDecisions [alice, exhausted_walker, exhausted_eater]))
   \<and> agents_get (agent_id exhausted_walker)
        (snd (getAgentsNeedingDecisions [alice, exhausted_walker, exhausted_eater]))
       = Some (exhausted_walker \<lparr> current_activity := ''sleeping'' \<rparr>)
   \<and> agents_get (agent_id exhausted_eater)
        (snd (getAgentsNeedingDecisions [alice, exhausted_walker, exhausted_eater]))
       = Some exhausted_eater"
proof -
  let ?reg = "[alice, exhausted_walker, exhausted_eater]"
  have wf: "wf_agents ?reg"
    by (simp add: sample_defs wf_agents_def)
  have walker: "exhausted_walker \<in> set ?reg \<and> is_alive exhausted_walker
      \<and> energy (physical_state exhausted_walker) < 10
      \<and> current_activity exhausted_walker \<noteq> ''eating''
      \<and> current_activity exhausted_walker \<noteq> ''in_conversation''"
    by (simp add: sample_defs)
  have eater: "exhausted_eater \<in> set ?reg \<and> is_alive exhausted_eater
      \<and> energy (physical_state exhausted_eater) < 10
      \<and> current_activity exhausted_eater = ''eating''"
    by (simp add: sample_defs)
  have res: "fst (getAgentsNeedingDecisions ?reg) = [alice]"
    by (simp add: sample_defs query_defs)
  from eligible_query_skips_and_autosleeps [OF wf] walker eater res wf
  show ?thesis by auto
qed

text \<open>
  C4 as stated fails: a live agent with energy 5 whose activity is 'eating' is excluded,
  but its activity is still 'eating' when the call returns.
\<close>

theorem eligible_query_leaves_exhausted_eater_eating:
  "is_alive exhausted_eater \<and> energy (physical_state exhausted_eater) < 10
   \<and> getAgentsNeedingDecisions [exhausted_eater] = ([], [exhausted_eater])
   \<and> current_activity exhausted_eater \<noteq> ''sleeping''"
  by (simp add: sample_defs query_defs)


section \<open>Conversations\<close>








lemma at_location_not_busy:
  "''at '' @ loc \<noteq> ''sleeping'' \<and> ''at '' @ loc \<noteq> ''eating''
   \<and> ''at '' @ loc \<noteq> ''in conversation'' \<and> ''at '' @ loc \<noteq> ''in_conversation''"
  by simp

lemmas conversation_defs =
  startConversation_def startConversation_mark_def startConversation_cleanup_def
  runConversation_def conversationTurn_def drawMaxTurns_def getAgent_def updateAgent_def
  agents_get_def Let_def flaky_oracle_def steady_oracle_def hello_def






text \<open>
  C1. For the whole time a conversation is active both participants should carry the
  busy marker and be left out of the eligibility query. \<^verbatim>\<open>startConversation\<close> marks
  them with 'in conversation', while the query skips 'in_conversation' (the marker that
  \<^verbatim>\<open>markInConversation\<close> writes): after the marking of two idle, co-located agents
  with energy 80 the query returns both of them, and it returns neither when they are
  marked by \<^verbatim>\<open>markInConversation\<close>.
\<close>

theorem active_conversation_participants_are_eligible:
  "startConversation_mark ''alice'' ''bob'' [alice, bob] =
     Some (alice \<lparr> current_activity := ''in conversation'' \<rparr>,
           bob \<lparr> current_activity := ''in conversation'' \<rparr>,
           [alice \<lparr> current_activity := ''in conversation'' \<rparr>,
            bob \<lparr> current_activity := ''in conversation'' \<rparr>])
   \<and> fst (getAgentsNeedingDecisions
            [alice \<lparr> current_activity := ''in conversation'' \<rparr>,
             bob \<lparr> current_activity := ''in conversation'' \<rparr>])
       = [alice \<lparr> current_activity := ''in conversation'' \<rparr>,
          bob \<lparr> current_activity := ''in conversation'' \<rparr>]
   \<and> fst (getAgentsNeedingDecisions
            (markInConversation ''bob'' (markInConversation ''alice'' [alice, bob])))
       = []"
  by (simp add: conversation_defs query_defs markInConversation_def sample_defs)


section \<open>Lifecycle rules\<close>

lemma checkDeathLoop_health_failures:
  "filter (\<lambda>d. cause d = ''health failure'') (checkDeathLoop rnd k agents) =
     map (\<lambda>a. \<lparr> death_id = agent_id a, death_name = agent_name a, cause = ''health failure'' \<rparr>)
       (filter (\<lambda>a. health (physical_state a) \<le> 0) agents)"
  by (induction agents arbitrary: k) simp_all

text \<open>
  C6. The death records with cause 'health failure' that the check produces are, in
  order, one for every agent it evaluates whose health is at most 0, and none for any
  other agent; the right-hand side does not mention the random source, so no draw decides
  this branch. With distinct ids in the Map, the record of an agent with cause
  'health failure' is among the deaths if and only if the agent's health is at most 0.
\<close>

theorem health_failure_iff_health_not_positive:
  "filter (\<lambda>d. cause d = ''health failure'') (checkDeathConditions rnd reg) =
     map (\<lambda>a. \<lparr> death_id = agent_id a, death_name = agent_name a, cause = ''health failure'' \<rparr>)
       (filter (\<lambda>a. health (physical_state a) \<le> 0) (getAgents reg))
   \<and> (wf_agents reg \<longrightarrow>
        (\<forall>a \<in> set (getAgents reg).
           \<lparr> death_id = agent_id a, death_name = agent_name a, cause = ''health failure'' \<rparr>
             \<in> set (checkDeathConditions rnd reg)
           \<longleftrightarrow> health (physical_state a) \<le> 0))"
proof -
  let ?mk = "\<lambda>a. \<lparr> death_id = agent_id a, death_name = agent_name a, cause = ''health failure'' \<rparr>"
  let ?deaths = "checkDeathConditions rnd reg"
  have eq: "filter (\<lambda>d. cause d = ''health failure'') ?deaths =
      map ?mk (filter (\<lambda>a. health (physical_state a) \<le> 0) (getAgents reg))"
    by (simp add: checkDeathConditions_def checkDeathLoop_health_failures)
  have iff: "?mk a \<in> set ?deaths \<longleftrightarrow> health (physical_state a) \<le> 0"
    if wf: "wf_agents reg" and a: "a \<in> set (getAgents reg)" for a
  proof -
    have "?mk a \<in> set ?deaths \<longleftrightarrow> ?mk a \<in> set (filter (\<lambda>d. cause d = ''health failure'') ?deaths)"
      by simp
    also have "\<dots> \<longleftrightarrow> ?mk a \<in> ?mk ` {b \<in> set reg. health (physical_state b) \<le> 0}"
      unfolding eq by (simp add: getAgents_def)
    also have "\<dots> \<longleftrightarrow> health (physical_state a) \<le> 0"
    proof
      assume "?mk a \<in> ?mk ` {b \<in> set reg. health (physical_state b) \<le> 0}"
      then obtain b where b: "b \<in> set reg" "health (physical_state b) \<le> 0"
        and "?mk a = ?mk b"
        by blast
      then have "agent_id a = agent_id b"
        by simp
      then have "a = b"
        using wf a b(1) by (simp add: getAgents_def wf_agents_same_id)
      then show "health (physical_state a) \<le> 0"
        using b(2) by simp
    next
      assume "health (physical_state a) \<le> 0"
      then show "?mk a \<in> ?mk ` {b \<in> set reg. health (physical_state b) \<le> 0}"
        using a by (simp add: getAgents_def)
    qed
    finally show ?thesis .
  qed
  show ?thesis
    using eq iff by blast
qed

theorem health_failure_iff_health_not_positive_witness:
  "wf_agents [alice, starving_agent, old_agent]
   \<and> checkDeathConditions low_draw [alice, starving_agent, old_agent] =
     [\<lparr> death_id = ''sam'', death_name = ''sam'', cause = ''health failure'' \<rparr>,
      \<lparr> death_id = ''old'', death_name = ''old'', cause = ''old age'' \<rparr>]
   \<and> checkDeathConditions no_draw [alice, starving_agent, old_agent] =
     [\<lparr> death_id = ''sam'', death_name = ''sam'', cause = ''health failure'' \<rparr>]
   \<and> health (physical_state starving_agent) \<le> 0
   \<and> \<lparr> death_id = ''sam'', death_name = ''sam'', cause = ''health failure'' \<rparr>
        \<in> set (checkDeathConditions no_draw [alice, starving_agent, old_agent])
   \<and> \<not> health (physical_state alice) \<le> 0
   \<and> \<lparr> death_id = ''alice'', death_name = ''alice'', cause = ''health failure'' \<rparr>
        \<notin> set (checkDeathConditions no_draw [alice, starving_agent, old_agent])"
proof -
  let ?reg = "[alice, starving_agent, old_agent]"
  have wf: "wf_agents ?reg"
    by (simp add: wf_agents_def sample_defs starving_agent_def old_agent_def)
  have mem: "starving_agent \<in> set (getAgents ?reg) \<and> alice \<in> set (getAgents ?reg)"
    by (simp add: getAgents_def)
  have names: "agent_id starving_agent = ''sam'' \<and> agent_name starving_agent = ''sam''
      \<and> agent_id alice = ''alice'' \<and> agent_name alice = ''alice''"
    by (simp add: sample_defs starving_agent_def)
  have vitals: "health (physical_state starving_agent) \<le> 0 \<and> \<not> health (physical_state alice) \<le> 0"
    by (simp add: sample_defs starving_agent_def)
  have low: "checkDeathConditions low_draw ?reg =
     [\<lparr> death_id = ''sam'', death_name = ''sam'', cause = ''health failure'' \<rparr>,
      \<lparr> death_id = ''old'', death_name = ''old'', cause = ''old age'' \<rparr>]"
    by (simp add: checkDeathConditions_def getAgents_def sample_defs starving_agent_def
          old_agent_def low_draw_def)
  have high: "checkDeathConditions no_draw ?reg =
     [\<lparr> death_id = ''sam'', death_name = ''sam'', cause = ''health failure'' \<rparr>]"
    by (simp add: checkDeathConditions_def getAgents_def sample_defs starving_agent_def
          old_agent_def no_draw_def)
  note t = health_failure_iff_health_not_positive [of no_draw ?reg]
  from t wf mem vitals
  have "\<lparr> death_id = agent_id starving_agent, death_name = agent_name starving_agent,
           cause = ''health failure'' \<rparr> \<in> set (checkDeathConditions no_draw ?reg)"
    and "\<lparr> death_id = agent_id alice, death_name = agent_name alice,
            cause = ''health failure'' \<rparr> \<notin> set (checkDeathConditions no_draw ?reg)"
    by blast+
  then show ?thesis
    using wf low high vitals names by simp
qed

text \<open>
  C7. The spawn check answers true only below the hard cap of 10; with a population of 10
  or more it answers false for every roll; and it answers true exactly when the
  population is below the soft cap of 8 and the roll is below 0.05.
\<close>

theorem spawn_only_below_caps:
  "(shouldSpawnNewAgent roll reg \<longrightarrow> length (getAgents reg) < 10)
   \<and> (10 \<le> length (getAgents reg) \<longrightarrow> \<not> shouldSpawnNewAgent roll reg)
   \<and> (shouldSpawnNewAgent roll reg \<longleftrightarrow> length (getAgents reg) < 8 \<and> roll < 0.05)"
  by (auto simp: shouldSpawnNewAgent_def Let_def)

theorem spawn_only_below_caps_witness:
  "shouldSpawnNewAgent 0.01 [alice, bob] \<and> length (getAgents [alice, bob]) < 10
   \<and> 10 \<le> length (getAgents crowd) \<and> \<not> shouldSpawnNewAgent 0 crowd
   \<and> \<not> shouldSpawnNewAgent 0.05 [alice, bob]"
proof -
  have a: "length (getAgents [alice, bob]) < 8 \<and> (0.01::real) < 0.05"
    by (simp add: getAgents_def)
  have c: "10 \<le> length (getAgents crowd)"
    by (simp add: getAgents_def crowd_def)
  have n: "\<not> (length (getAgents [alice, bob]) < 8 \<and> (0.05::real) < 0.05)"
    by simp
  from a c n spawn_only_below_caps [of "0.01" "[alice, bob]"] spawn_only_below_caps [of 0 crowd]
    spawn_only_below_caps [of "0.05" "[alice, bob]"]
  show ?thesis by blast
qed

lemma spawnNewAgent_registers:
  "\<exists>a. spawnNewAgent (Some p) newId world_day True st = (agents_set a (fst st), snd st + 1)
       \<and> agents_get newId (agents_set a (fst st)) = Some a
       \<and> agent_id a = newId \<and> agent_name a = p_name p \<and> is_alive a"
proof -
  let ?a = "\<lparr> agent_id = newId,
              agent_name = p_name p,
              physical_state = \<lparr> health = 100, hunger = 20, energy = 100, age = p_age p \<rparr>,
              mental_state =
                \<lparr> mood = ''curious'', mood_score = 60, current_thought = ''A new beginning...'',
                  worries = [deepest_fear p],
                  desires = [core_desire p],
                  secrets = [secret p] \<rparr>,
              current_location = initial_location p,
              current_activity = ''arriving in town'',
              is_alive = True,
              born_on_day = (case world_day of
                               None \<Rightarrow> 1
                             | Some d \<Rightarrow> if d = 0 then 1 else d),
              died_on_day = None,
              death_cause = None,
              profession = None \<rparr>"
  have "spawnNewAgent (Some p) newId world_day True st = (agents_set ?a (fst st), snd st + 1)"
    by (simp add: spawnNewAgent_def createAgent_def Let_def)
  moreover have "agents_get newId (agents_set ?a (fst st)) = Some ?a"
    by (simp add: agents_get_set)
  ultimately show ?thesis
    by (intro exI [of _ ?a]) simp
qed

lemma spawnNewAgent_insert_failed:
  "spawnNewAgent (Some p) newId world_day False st = st"
  by (simp add: spawnNewAgent_def createAgent_def Let_def)

lemma generatePersonality_reply:
  "generatePersonality (Some g) build fallback \<noteq> None"
  by (simp add: generatePersonality_def split: option.splits)

text \<open>
  C8 (amended). When the spawn path is taken and the personality generator returns null,
  the core skips the birth: \<^verbatim>\<open>generatePersonality\<close> hands a falsy generator value on as
  null, and \<^verbatim>\<open>spawnNewAgent\<close> returns on a null personality, leaving the registry and the
  birth counter as they were. The generator of the repository never returns null:
  \<^verbatim>\<open>generateAgentPersonality\<close> answers with a \<^verbatim>\<open>{success, ...}\<close> object whether its oracle
  call succeeds or fails, and for such an object \<^verbatim>\<open>generatePersonality\<close> returns a
  personality, never null. With that personality \<^verbatim>\<open>spawnNewAgent\<close> registers a living
  agent of its name under the new id and counts the birth when the database insert
  succeeds, and changes nothing when the insert fails.
\<close>

theorem spawn_skips_null_personality:
  "generatePersonality None build fallback = None
   \<and> spawnNewAgent None newId world_day insertOk st = st
   \<and> generatePersonality (Some (generateAgentPersonality outcome)) build fallback \<noteq> None
   \<and> (\<forall>p. generatePersonality (Some (generateAgentPersonality outcome)) build fallback = Some p
          \<longrightarrow> (\<exists>a. spawnNewAgent (Some p) newId world_day True st
                       = (agents_set a (fst st), snd st + 1)
                     \<and> agents_get newId (agents_set a (fst st)) = Some a
                     \<and> agent_id a = newId \<and> agent_name a = p_name p \<and> is_alive a)
              \<and> spawnNewAgent (Some p) newId world_day False st = st)"
proof -
  have "generatePersonality None build fallback = None"
    by (simp add: generatePersonality_def)
  moreover have "spawnNewAgent None newId world_day insertOk st = st"
    by (simp add: spawnNewAgent_def)
  ultimately show ?thesis
    using generatePersonality_reply [of "generateAgentPersonality outcome" build fallback]
      spawnNewAgent_registers [of _ newId world_day st]
      spawnNewAgent_insert_failed [of _ newId world_day st]
    by blast
qed

theorem spawn_skips_null_personality_witness:
  "generatePersonality (Some (generateAgentPersonality (Failed ''quota exceeded'')))
       sample_build sample_personality = Some default_personality
   \<and> (\<exists>a. spawnNewAgent (Some default_personality) ''n1'' (Some 3) True ([alice, bob], 0)
             = (agents_set a [alice, bob], 1)
           \<and> agents_get ''n1'' (agents_set a [alice, bob]) = Some a
           \<and> agent_id a = ''n1'' \<and> agent_name a = ''Alex Chen'' \<and> is_alive a)
   \<and> map agent_name
        (fst (spawnNewAgent (Some default_personality) ''n1'' (Some 3) True ([alice, bob], 0)))
       = [''alice'', ''bob'', ''Alex Chen'']
   \<and> spawnNewAgent (Some default_personality) ''n1'' (Some 3) False ([alice, bob], 0)
       = ([alice, bob], 0)"
proof -
  have g: "generatePersonality (Some (generateAgentPersonality (Failed ''quota exceeded'')))
       sample_build sample_personality = Some default_personality"
    by (simp add: generatePersonality_def sample_build_def)
  note t = spawn_skips_null_personality
    [of sample_build sample_personality "''n1''" "Some 3" True "([alice, bob], 0)"
        "Failed ''quota exceeded''"]
  from t g have r: "(\<exists>a. spawnNewAgent (Some default_personality) ''n1'' (Some 3) True ([alice, bob], 0)
               = (agents_set a (fst ([alice, bob], 0::nat)), snd ([alice, bob], 0::nat) + 1)
             \<and> agents_get ''n1'' (agents_set a (fst ([alice, bob], 0::nat))) = Some a
             \<and> agent_id a = ''n1'' \<and> agent_name a = p_name default_personality \<and> is_alive a)
      \<and> spawnNewAgent (Some default_personality) ''n1'' (Some 3) False ([alice, bob], 0)
          = ([alice, bob], 0)"
    by blast
  have names: "map agent_name
        (fst (spawnNewAgent (Some default_personality) ''n1'' (Some 3) True ([alice, bob], 0)))
       = [''alice'', ''bob'', ''Alex Chen'']"
    by (simp add: spawnNewAgent_def createAgent_def Let_def sample_defs default_personality_def)
  from g r names show ?thesis
    by (simp add: default_personality_def)
qed

text \<open>
  C8 as stated fails: on a null from the generator \<^verbatim>\<open>generatePersonality\<close> returns
  null, and on a null personality \<^verbatim>\<open>spawnNewAgent\<close> leaves the registry of two agents
  and the birth counter as they were, although the insert would succeed.
\<close>

theorem null_personality_is_not_replaced:
  "generatePersonality (None :: GeneratorReply option) sample_build sample_personality = None
   \<and> spawnNewAgent None ''n1'' (Some 3) True ([alice, bob], 0) = ([alice, bob], 0)"
  by (simp add: generatePersonality_def spawnNewAgent_def)

section \<open>Rewards\<close>

lemma agents_get_mid:
  "agent_id y \<notin> agent_id ` set pre \<Longrightarrow> agents_get (agent_id y) (pre @ y # ys) = Some y"
  by (induction pre) (auto simp: agents_get_def)

lemma fold_updateAgent:
  assumes "\<And>a x. agent_id (body a x) = agent_id x"
  shows "distinct (map agent_id (pre @ ys)) \<Longrightarrow>
   fold (\<lambda>a r. updateAgent (agent_id a) (body a) r) ys (pre @ ys)
     = pre @ map (\<lambda>a. body a a) ys"
proof (induction ys arbitrary: pre)
  case Nil
  then show ?case by simp
next
  case (Cons y ys)
  have notin: "agent_id y \<notin> agent_id ` set pre"
    using Cons.prems by auto
  have step: "updateAgent (agent_id y) (body y) (pre @ y # ys) = (pre @ [body y y]) @ ys"
    using agents_set_mid [of y "body y y" pre ys] notin
    by (simp add: updateAgent_def agents_get_mid assms)
  have d: "distinct (map agent_id ((pre @ [body y y]) @ ys))"
    using Cons.prems by (simp add: assms)
  show ?case
    using Cons.IH [OF d] step by simp
qed

lemma forEach_agents_map:
  assumes "\<And>a x. agent_id (body a x) = agent_id x" and "wf_agents reg"
  shows "forEach_agents body reg = map (\<lambda>a. body a a) reg"
  using fold_updateAgent [of body "[]" reg] assms
  by (simp add: forEach_agents_def getAgents_def wf_agents_def)

lemma forEach_reward_health:
  "wf_agents reg \<Longrightarrow> 0 \<le> d \<Longrightarrow>
   forEach_agents (reward_health d) reg = map (apply_reward (Health, d)) reg"
  by (subst forEach_agents_map) (simp_all add: reward_health_def toward_bound_def)

lemma forEach_reward_energy:
  "wf_agents reg \<Longrightarrow> 0 \<le> d \<Longrightarrow>
   forEach_agents (reward_energy d) reg = map (apply_reward (Energy, d)) reg"
  by (subst forEach_agents_map) (simp_all add: reward_energy_def toward_bound_def)

lemma forEach_reward_mood:
  "wf_agents reg \<Longrightarrow> 0 \<le> d \<Longrightarrow>
   forEach_agents (reward_mood d) reg = map (apply_reward (MoodScore, d)) reg"
  by (subst forEach_agents_map) (simp_all add: reward_mood_def toward_bound_def)

lemma forEach_reward_hunger:
  "wf_agents reg \<Longrightarrow> 0 < d \<Longrightarrow>
   forEach_agents (reward_hunger d) reg = map (apply_reward (Hunger, - d)) reg"
  by (subst forEach_agents_map) (simp_all add: reward_hunger_def toward_bound_def)

lemma toward_bound_clamp:
  "lo \<le> hi \<Longrightarrow> lo \<le> x \<Longrightarrow> x \<le> hi \<Longrightarrow> toward_bound lo hi d x = max lo (min hi (x + d))"
  by (simp add: toward_bound_def min_def max_def)

lemmas forEach_rewards =
  forEach_reward_health forEach_reward_energy forEach_reward_mood forEach_reward_hunger

lemmas reward_defs =
  evaluateActionForReward_def reward_table_def Let_def truthy_def

lemma evaluateActionForReward_table:
  assumes "wf_agents reg"
  shows "fst (evaluateActionForReward roll agent act target reg) =
       (case reward_table roll agent act target of
          None \<Rightarrow> reg
        | Some rule \<Rightarrow> map (apply_reward rule) reg)"
proof -
  consider (on_help) "act = ''help'' \<or> act = ''heal'' \<or> act = ''teach''"
    | (on_create) "act = ''create_something'' \<or> act = ''write''"
    | (on_share) "act = ''share'' \<or> act = ''donate'' \<or> act = ''give''"
    | (on_talk) "act = ''talk''"
    | (on_work) "act = ''work''"
    | (on_other) "act \<noteq> ''help''" "act \<noteq> ''heal''" "act \<noteq> ''teach''"
        "act \<noteq> ''create_something''" "act \<noteq> ''write''" "act \<noteq> ''share''"
        "act \<noteq> ''donate''" "act \<noteq> ''give''" "act \<noteq> ''talk''" "act \<noteq> ''work''"
    by blast
  then show ?thesis
  proof cases
    case on_help
    then show ?thesis
      using assms
      by (elim disjE) (simp_all add: reward_defs forEach_rewards split: option.splits)
  next
    case on_create
    then show ?thesis
      using assms
      by (elim disjE) (simp_all add: reward_defs forEach_rewards split: option.splits)
  next
    case on_share
    then show ?thesis
      using assms
      by (elim disjE) (simp_all add: reward_defs forEach_rewards split: option.splits)
  next
    case on_talk
    then show ?thesis
      using assms
      by (simp add: reward_defs forEach_rewards split: option.splits)
  next
    case on_work
    show ?thesis
    proof (cases "profession agent")
      case None
      then show ?thesis
        using on_work by (simp add: reward_defs split: option.splits)
    next
      case (Some p)
      consider "p = ''healer''" | "p = ''farmer''" | "p = ''scholar''"
        | "p \<noteq> ''healer''" "p \<noteq> ''farmer''" "p \<noteq> ''scholar''"
        by blast
      then show ?thesis
        using on_work Some assms
        by cases (simp_all add: reward_defs forEach_rewards split: option.splits)
    qed
  next
    case on_other
    then show ?thesis
      by (simp add: reward_defs split: option.splits)
  qed
qed

lemma reward_table_rules:
  assumes "reward_table roll agent act target = Some rule"
  shows "rule \<in> {(Health, 5), (MoodScore, 8), (Energy, 6), (MoodScore, 4), (Health, 3),
                 (Hunger, - 5), (MoodScore, 5)}"
  using assms
  by (auto simp: reward_table_def split: if_splits option.splits)

lemma apply_reward_field:
  assumes "rule \<in> {(Health, 5), (MoodScore, 8), (Energy, 6), (MoodScore, 4), (Health, 3),
                 (Hunger, - 5), (MoodScore, 5)}"
  shows "if fst rule = Hunger
         then field_value Hunger (apply_reward rule a) = max 0 (field_value Hunger a - 5)
              \<and> 0 \<le> field_value Hunger (apply_reward rule a)
              \<and> (field_value Hunger a \<le> 100 \<longrightarrow> field_value Hunger (apply_reward rule a) \<le> 100)
         else 0 < snd rule
              \<and> field_value (fst rule) (apply_reward rule a)
                  = min 100 (field_value (fst rule) a + snd rule)
              \<and> field_value (fst rule) (apply_reward rule a) \<le> 100
              \<and> (field_lo (fst rule) \<le> field_value (fst rule) a
                   \<longrightarrow> field_lo (fst rule) \<le> field_value (fst rule) (apply_reward rule a))"
  using assms by (auto simp: toward_bound_def)

text \<open>
  C9 (amended). Whenever a reward rule triggers for a qualifying action (\<open>reward_table\<close>
  names its field and delta), the registry after \<^verbatim>\<open>evaluateActionForReward\<close> is the
  registry before it with the rule applied to every agent, living agents included, and
  it is unchanged when no rule triggers. The delta is clamped on one side only: a health,
  energy or mood bonus \<open>d > 0\<close> sets the field to \<open>min 100 (old + d)\<close>, and the hunger
  relief sets hunger to \<open>max 0 (old - 5)\<close>; no other field changes. So after a bonus the
  field is at most 100, and at least its lower bound (0, or -100 for the mood score) if
  it was so before; after the hunger relief hunger is at least 0, and at most 100 if it
  was so before.
\<close>

theorem reward_applies_delta_to_every_agent:
  assumes "wf_agents reg"
  shows "fst (evaluateActionForReward roll agent act target reg) =
           (case reward_table roll agent act target of
              None \<Rightarrow> reg
            | Some rule \<Rightarrow> map (apply_reward rule) reg)
       \<and> (\<forall>rule. reward_table roll agent act target = Some rule \<longrightarrow>
            (\<forall>a \<in> set reg.
               if fst rule = Hunger
               then field_value Hunger (apply_reward rule a) = max 0 (field_value Hunger a - 5)
                    \<and> 0 \<le> field_value Hunger (apply_reward rule a)
                    \<and> (field_value Hunger a \<le> 100
                         \<longrightarrow> field_value Hunger (apply_reward rule a) \<le> 100)
               else 0 < snd rule
                    \<and> field_value (fst rule) (apply_reward rule a)
                        = min 100 (field_value (fst rule) a + snd rule)
                    \<and> field_value (fst rule) (apply_reward rule a) \<le> 100
                    \<and> (field_lo (fst rule) \<le> field_value (fst rule) a
                         \<longrightarrow> field_lo (fst rule) \<le> field_value (fst rule) (apply_reward rule a))))"
proof -
  have "fst (evaluateActionForReward roll agent act target reg) =
           (case reward_table roll agent act target of
              None \<Rightarrow> reg
            | Some rule \<Rightarrow> map (apply_reward rule) reg)"
    using assms by (rule evaluateActionForReward_table)
  moreover have "if fst rule = Hunger
               then field_value Hunger (apply_reward rule a) = max 0 (field_value Hunger a - 5)
                    \<and> 0 \<le> field_value Hunger (apply_reward rule a)
                    \<and> (field_value Hunger a \<le> 100
                         \<longrightarrow> field_value Hunger (apply_reward rule a) \<le> 100)
               else 0 < snd rule
                    \<and> field_value (fst rule) (apply_reward rule a)
                        = min 100 (field_value (fst rule) a + snd rule)
                    \<and> field_value (fst rule) (apply_reward rule a) \<le> 100
                    \<and> (field_lo (fst rule) \<le> field_value (fst rule) a
                         \<longrightarrow> field_lo (fst rule) \<le> field_value (fst rule) (apply_reward rule a))"
    if "reward_table roll agent act target = Some rule" for rule a
    using reward_table_rules [OF that] by (rule apply_reward_field)
  ultimately show ?thesis
    by blast
qed

theorem reward_applies_delta_to_every_agent_witness:
  "wf_agents [alice, healthy_agent]
   \<and> reward_table 0 alice ''heal'' None = Some (Health, 5)
   \<and> map (health \<circ> physical_state) [alice, healthy_agent] = [90, 98]
   \<and> map (health \<circ> physical_state)
        (fst (evaluateActionForReward 0 alice ''heal'' None [alice, healthy_agent])) = [95, 100]
   \<and> field_value Health (apply_reward (Health, 5) healthy_agent)
       = min 100 (field_value Health healthy_agent + 5)
   \<and> field_lo Health \<le> field_value Health healthy_agent
   \<and> field_lo Health \<le> field_value Health (apply_reward (Health, 5) healthy_agent)
   \<and> field_value Health (apply_reward (Health, 5) healthy_agent) \<le> 100"
proof -
  have wf: "wf_agents [alice, healthy_agent]"
    by (simp add: wf_agents_def sample_defs healthy_agent_def)
  have rule: "reward_table 0 alice ''heal'' None = Some (Health, 5)"
    by (simp add: reward_table_def)
  have inb: "healthy_agent \<in> set [alice, healthy_agent]
      \<and> field_lo Health \<le> field_value Health healthy_agent"
    by (simp add: sample_defs healthy_agent_def)
  note t = reward_applies_delta_to_every_agent [OF wf, of 0 alice "''heal''" None]
  from t rule have run: "fst (evaluateActionForReward 0 alice ''heal'' None [alice, healthy_agent])
      = map (apply_reward (Health, 5)) [alice, healthy_agent]"
    by simp
  from t rule inb
  have after: "field_value Health (apply_reward (Health, 5) healthy_agent)
       = min 100 (field_value Health healthy_agent + 5)
      \<and> field_lo Health \<le> field_value Health (apply_reward (Health, 5) healthy_agent)
      \<and> field_value Health (apply_reward (Health, 5) healthy_agent) \<le> 100"
    by fastforce
  have vals: "map (health \<circ> physical_state) [alice, healthy_agent] = [90, 98]
      \<and> map (health \<circ> physical_state) (map (apply_reward (Health, 5)) [alice, healthy_agent])
          = [95, 100]"
    by (simp add: sample_defs healthy_agent_def toward_bound_def)
  from wf rule inb after vals show ?thesis
    unfolding run by blast
qed

text \<open>
  C9 as stated fails: the 'write' rule triggers with its bonus of 8, and a living agent
  whose mood score is -150 ends with -142, below the lower bound -100 of the mood score.
\<close>

theorem reward_leaves_mood_below_its_bound:
  "is_alive gloomy_agent
   \<and> reward_table 0 alice ''write'' None = Some (MoodScore, 8)
   \<and> mood_score (mental_state gloomy_agent) = - 150
   \<and> mood_score (mental_state
        (hd (fst (evaluateActionForReward 0 alice ''write'' None [gloomy_agent])))) = - 142
   \<and> \<not> - 100 \<le> mood_score (mental_state
        (hd (fst (evaluateActionForReward 0 alice ''write'' None [gloomy_agent]))))"
  by (simp add: reward_table_def evaluateActionForReward_def forEach_agents_def getAgents_def
        updateAgent_def agents_get_def reward_mood_def Let_def gloomy_agent_def sample_agent_def)

end
